theory Spec2Isabelle
  imports Complex_Main
begin

section \<open>Numbers and JavaScript truthiness\<close>

text \<open>
  The pipeline computes on JavaScript numbers. They are modelled as exact reals: the
  claims below are about which boundaries are subtracted, compared and divided, and the
  rounding of IEEE doubles is outside the model. An optional field (\<open>f?: number\<close>) is a
  \<open>real option\<close>. \<open>x || 0\<close> yields \<open>0\<close> for an absent field and for the
  number \<open>0\<close>, and the number itself otherwise.
\<close>

definition or0 :: "real option \<Rightarrow> real" where
  "or0 x = (case x of None \<Rightarrow> 0 | Some v \<Rightarrow> v)"

text \<open>A number is truthy when it is not zero; an optional boolean when it is \<open>true\<close>.\<close>

definition truthy :: "real \<Rightarrow> bool" where
  "truthy x = (x \<noteq> 0)"

definition truthyFlag :: "bool option \<Rightarrow> bool" where
  "truthyFlag b = (case b of None \<Rightarrow> False | Some v \<Rightarrow> v)"

section \<open>Data model (types.ts)\<close>

text \<open>
  Records keep the field names of the interfaces. A field whose name is taken in Isabelle
  (\<open>size\<close>, \<open>method\<close>, \<open>value\<close>, \<open>top\<close>, \<open>log\<close>) carries a prime.
  Several interfaces share field names; where a name is ambiguous it is written with its
  record, as in \<open>HarRequest.url\<close>.
\<close>

record RequestTiming =
  startTime :: real
  domainLookupStart :: real
  domainLookupEnd :: real
  connectStart :: real
  secureConnectionStart :: real
  connectEnd :: real
  requestStart :: real
  responseStart :: real
  responseEnd :: real

record RequestData =
  url :: string
  timing :: RequestTiming
  rawTimings :: "bool option"

record HarRequest =
  url :: string
  method' :: string

record HarContent =
  size' :: real
  mimeType :: string

record HarResponse =
  status :: real
  transferSize :: "real option"
  content :: HarContent

text \<open>
  The private fields \<open>_dns_start\<close> ... \<open>_is_lcp\<close> of \<open>HarEntry\<close> carry the prefix
  \<open>p_\<close> here, since an identifier cannot start with an underscore.
\<close>

record HarEntry =
  request :: HarRequest
  response :: HarResponse
  time :: real
  startedDateTime :: string
  p_dns_start :: "real option"
  p_dns_end :: "real option"
  p_connect_start :: "real option"
  p_connect_end :: "real option"
  p_secure_start :: "real option"
  p_secure_end :: "real option"
  p_request_start :: "real option"
  p_request_end :: "real option"
  p_response_start :: "real option"
  p_response_end :: "real option"
  p_is_lcp :: "bool option"

section \<open>TestRunner.mergeEntries\<close>

text \<open>
  \<open>Array.prototype.findIndex\<close>: the index of the first element that satisfies the
  predicate; JavaScript's \<open>-1\<close> is \<open>None\<close>.
\<close>

fun findIndex :: "('a \<Rightarrow> bool) \<Rightarrow> 'a list \<Rightarrow> nat option" where
  "findIndex P [] = None"
| "findIndex P (x # xs) =
     (if P x then Some 0
      else (case findIndex P xs of None \<Rightarrow> None | Some i \<Rightarrow> Some (Suc i)))"

text \<open>
  The body of the \<open>if (indexToUpdate !== -1)\<close> branch: the entry with the sample's
  timings spread over it. \<open>request.url == lcpURL\<close> is false when \<open>lcpURL\<close> is null.
\<close>

definition updatedObject :: "HarEntry \<Rightarrow> RequestData \<Rightarrow> string option \<Rightarrow> HarEntry" where
  "updatedObject entry req lcpURL =
     (let t = timing req;
          connectEnd' = (if secureConnectionStart t > 0 then secureConnectionStart t
                         else connectEnd t);
          secureStart = (if truthy (secureConnectionStart t) then secureConnectionStart t
                         else - 1);
          secureEnd = (if truthy (secureConnectionStart t) then connectEnd t else - 1);
          upd = entry\<lparr>
            p_dns_start := Some (domainLookupStart t),
            p_dns_end := Some (domainLookupEnd t),
            p_connect_start := Some (connectStart t),
            p_connect_end := Some connectEnd',
            p_secure_start := Some secureStart,
            p_secure_end := Some secureEnd,
            p_request_start := Some (requestStart t),
            p_request_end := Some (responseStart t),
            p_response_start := Some (responseStart t),
            p_response_end := Some (responseEnd t)\<rparr>
      in if Some (RequestData.url req) = lcpURL then upd\<lparr>p_is_lcp := Some True\<rparr> else upd)"

text \<open>
  One round of the \<open>for (const request of this.requests)\<close> loop. The predicate handed
  to \<open>findIndex\<close> tests the URL of the archive entry and the \<open>rawTimings\<close> flag of the
  sample (\<open>request.rawTimings\<close>), not any mark on the archive entry.
\<close>

definition mergeStep :: "string option \<Rightarrow> HarEntry list \<Rightarrow> RequestData \<Rightarrow> HarEntry list" where
  "mergeStep lcpURL harEntries req =
     (case findIndex (\<lambda>object. HarRequest.url (request object) = RequestData.url req
                                \<and> \<not> truthyFlag (rawTimings req)) harEntries of
        None \<Rightarrow> harEntries
      | Some indexToUpdate \<Rightarrow>
          harEntries[indexToUpdate := updatedObject (harEntries ! indexToUpdate) req lcpURL])"

text \<open>
  \<open>mergeEntries\<close> reads the samples from \<open>this.requests\<close>; the field is the first
  argument here. The entry list is updated in place and returned.
\<close>

definition mergeEntries :: "RequestData list \<Rightarrow> HarEntry list \<Rightarrow> string option \<Rightarrow> HarEntry list" where
  "mergeEntries requests harEntries lcpURL = foldl (mergeStep lcpURL) harEntries requests"

section \<open>The archive parser (parseHarFile)\<close>

record Timings =
  dns_time :: real
  connect_time :: real
  ssl_time :: real
  send_time :: real
  wait_time :: real
  receive_time :: real
  total_time :: real
  dns_pct :: real
  connect_pct :: real
  ssl_pct :: real
  send_pct :: real
  wait_pct :: real
  receive_pct :: real
  response_start :: real
  response_end :: real

record NetworkRequest =
  url :: string
  method' :: string
  status :: real
  size' :: real
  type :: string
  start_time :: real
  duration :: real
  mime_type :: string
  timings :: Timings

text \<open>
  The archive as \<open>JSON.parse\<close> returns it. It is cast to \<open>HarLog\<close> without any
  check, so the parsed value can be \<open>null\<close> and an element of \<open>log.entries\<close> can be
  \<open>null\<close> (\<open>None\<close>); an element that is an object has the shape of \<open>HarEntry\<close>.
  Other ill-typed values on which the loop would throw as well (a MIME type that is a
  number, say, for \<open>toLowerCase\<close>) are outside the record type.
\<close>

record HarLogInner =
  entries :: "HarEntry option list option"

record HarLog =
  log' :: "HarLogInner option"

text \<open>
  \<open>String.prototype.includes\<close> and \<open>toLowerCase\<close>; the latter on the ASCII
  letters \<open>A\<close> (65) to \<open>Z\<close> (90), which is all a MIME type holds.
\<close>

fun includes_str :: "string \<Rightarrow> string \<Rightarrow> bool" where
  "includes_str [] sub = (sub = [])"
| "includes_str (c # cs) sub = (take (length sub) (c # cs) = sub \<or> includes_str cs sub)"

definition toLowerCase :: "string \<Rightarrow> string" where
  "toLowerCase s =
     map (\<lambda>c. let n = (of_char c :: nat)
               in if 65 \<le> n \<and> n \<le> 90 then char_of (n + 32) else c) s"

definition getResourceTypeFromMime :: "string \<Rightarrow> string" where
  "getResourceTypeFromMime mimeStr =
     (if mimeStr = [] then ''other''
      else let mime = toLowerCase mimeStr in
        if includes_str mime ''html'' then ''document''
        else if includes_str mime ''css'' \<or> includes_str mime ''stylesheet'' then ''stylesheet''
        else if includes_str mime ''javascript'' \<or> includes_str mime ''ecmascript'' then ''script''
        else if includes_str mime ''image'' \<or> includes_str mime ''svg'' then ''image''
        else if includes_str mime ''font'' \<or> includes_str mime ''woff'' \<or> includes_str mime ''ttf''
          then ''font''
        else if includes_str mime ''json'' then ''json''
        else if includes_str mime ''video'' then ''media''
        else ''other'')"

text \<open>
  The body of the loop over the entries. \<open>pageStart\<close> is the time of the first entry,
  when it has a non-empty \<open>startedDateTime\<close>; \<open>getTime\<close> stands for
  \<open>new Date(s).getTime()\<close>. The fallbacks \<open>entry.request || {...}\<close>,
  \<open>entry.response || {...}\<close> and \<open>response.content?.\<close> yield what the scalar
  fallbacks below yield on empty strings and zeros, so a missing object is an object of
  falsy fields here.
\<close>

definition harRequest :: "(string \<Rightarrow> real) \<Rightarrow> real option \<Rightarrow> HarEntry \<Rightarrow> NetworkRequest" where
  "harRequest getTime pageStart entry =
     (let req = request entry;
          resp = response entry;
          url = HarRequest.url req;
          method = (if HarRequest.method' req = [] then ''GET'' else HarRequest.method' req);
          status = HarResponse.status resp;
          size0 = or0 (transferSize resp);
          size = (if \<not> truthy size0 then HarContent.size' (content resp) else size0);
          mimeType = HarContent.mimeType (content resp);
          resourceType = getResourceTypeFromMime mimeType;
          startedStr = startedDateTime entry;
          totalTime = time entry;
          relativeStart = (case pageStart of
                             None \<Rightarrow> 0
                           | Some ps \<Rightarrow> if startedStr = [] then 0 else getTime startedStr - ps);
          dnsStart = or0 (p_dns_start entry);
          dnsEnd = or0 (p_dns_end entry);
          connectStart = or0 (p_connect_start entry);
          connectEnd = or0 (p_connect_end entry);
          secureStart = or0 (p_secure_start entry);
          secureEnd = or0 (p_secure_end entry);
          requestStart = or0 (p_request_start entry);
          requestEnd = or0 (p_request_end entry);
          responseStart = or0 (p_response_start entry);
          responseEnd = or0 (p_response_end entry);
          dns = dnsEnd - dnsStart;
          connect = connectEnd - connectStart;
          ssl = secureEnd - secureStart;
          send = requestEnd - requestStart;
          wait = responseStart - requestEnd;
          receive = responseEnd - responseStart;
          total = responseEnd - requestStart;
          dnsPct = (if total > 0 \<and> dns > 0 then (dns / total) * 100 else 0);
          connectPct = (if total > 0 \<and> connect > 0 then (connect / total) * 100 else 0);
          sslPct = (if total > 0 \<and> ssl > 0 then (ssl / total) * 100 else 0);
          sendPct = (if total > 0 then (send / total) * 100 else 0);
          waitPct = (if total > 0 then (wait / total) * 100 else 0);
          receivePct = (if total > 0 then (receive / total) * 100 else 0)
      in \<lparr>NetworkRequest.url = url, method' = method, status = status, size' = size,
          type = resourceType, start_time = relativeStart, duration = totalTime,
          mime_type = mimeType,
          timings = \<lparr>dns_time = dns, connect_time = connect, ssl_time = ssl,
                     send_time = send, wait_time = wait, receive_time = receive,
                     total_time = total, dns_pct = dnsPct, connect_pct = connectPct,
                     ssl_pct = sslPct, send_pct = sendPct, wait_pct = waitPct,
                     receive_pct = receivePct, response_start = responseStart,
                     response_end = responseEnd\<rparr>\<rparr>)"

text \<open>
  The file system and \<open>JSON.parse\<close> are outside the program. A path names nothing,
  something that cannot be read as a file (a directory, a file without read permission),
  or a file with its text. \<open>parse\<close> stands for \<open>JSON.parse\<close>, which throws or yields
  the archive. A thrown exception is an \<open>Inl\<close>.
\<close>

datatype error = SyntaxError | ReadError | TypeError

datatype path = Missing | Unreadable | File string

definition existsSync :: "path \<Rightarrow> bool" where
  "existsSync p = (p \<noteq> Missing)"

definition readFileSync :: "path \<Rightarrow> error + string" where
  "readFileSync p = (case p of File data \<Rightarrow> Inr data | _ \<Rightarrow> Inl ReadError)"

definition loadJsonFile :: "(string \<Rightarrow> error + 'a) \<Rightarrow> path \<Rightarrow> error + 'a" where
  "loadJsonFile parse filepath =
     (case readFileSync filepath of
        Inl e \<Rightarrow> Inl e
      | Inr data \<Rightarrow> parse data)"

text \<open>
  \<open>let log = harData.log || {}; let entries = log.entries || []\<close>: the entries of
  a parsed archive.
\<close>

definition harEntriesOf :: "HarLog \<Rightarrow> HarEntry option list" where
  "harEntriesOf harData =
     (case log' harData of
        None \<Rightarrow> []
      | Some l \<Rightarrow> (case HarLogInner.entries l of None \<Rightarrow> [] | Some es \<Rightarrow> es))"

text \<open>
  The loop \<open>for (let entry of entries)\<close>, which pushes one record per entry. On a
  \<open>null\<close> entry, \<open>entry.request\<close> throws a \<open>TypeError\<close> and the records collected so
  far are lost with the local array.
\<close>

fun parseEntries ::
  "(string \<Rightarrow> real) \<Rightarrow> real option \<Rightarrow> HarEntry option list \<Rightarrow> error + NetworkRequest list" where
  "parseEntries getTime pageStart [] = Inr []"
| "parseEntries getTime pageStart (None # rest) = Inl TypeError"
| "parseEntries getTime pageStart (Some entry # rest) =
     (case parseEntries getTime pageStart rest of
        Inl e \<Rightarrow> Inl e
      | Inr requests \<Rightarrow> Inr (harRequest getTime pageStart entry # requests))"

text \<open>
  The \<open>try\<close> block of \<open>parseHarFile\<close>. Besides \<open>loadJsonFile\<close>, three reads can
  throw: \<open>harData.log\<close> on a parsed \<open>null\<close>, \<open>entries[0].startedDateTime\<close> on a
  first entry that is \<open>null\<close>, and the loop on any \<open>null\<close> entry.
\<close>

definition parseHarTry ::
  "(string \<Rightarrow> error + HarLog option) \<Rightarrow> (string \<Rightarrow> real) \<Rightarrow> path
     \<Rightarrow> error + NetworkRequest list option" where
  "parseHarTry parse getTime harPath =
     (case loadJsonFile parse harPath of
        Inl e \<Rightarrow> Inl e
      | Inr None \<Rightarrow> Inl TypeError
      | Inr (Some harData) \<Rightarrow>
          (let entries = harEntriesOf harData
           in if length entries = 0 then Inr None
              else (case hd entries of
                      None \<Rightarrow> Inl TypeError
                    | Some first \<Rightarrow>
                        (let pageStartStr = startedDateTime first;
                             pageStart = (if pageStartStr = [] then None
                                          else Some (getTime pageStartStr))
                         in (case parseEntries getTime pageStart entries of
                               Inl e \<Rightarrow> Inl e
                             | Inr requests \<Rightarrow> Inr (Some requests))))))"

text \<open>
  \<open>parseHarFile\<close>: \<open>null\<close> (\<open>None\<close>) when the file does not exist; the \<open>catch\<close>
  clause turns every exception of the \<open>try\<close> block into \<open>null\<close>.
\<close>

definition parseHarFile ::
  "(string \<Rightarrow> error + HarLog option) \<Rightarrow> (string \<Rightarrow> real) \<Rightarrow> path
     \<Rightarrow> NetworkRequest list option" where
  "parseHarFile parse getTime harPath =
     (if \<not> existsSync harPath then None
      else (case parseHarTry parse getTime harPath of
              Inl e \<Rightarrow> None
            | Inr result \<Rightarrow> result))"

section \<open>Page-level timing phases (calculateTimingPhases)\<close>

text \<open>
  \<open>Partial<NavigationTiming>\<close>: every field may be absent. Only the fields that the
  pipeline reads are kept.
\<close>

record NavigationTiming =
  navigationStart :: "real option"
  domainLookupStart :: "real option"
  domainLookupEnd :: "real option"
  connectStart :: "real option"
  connectEnd :: "real option"
  secureConnectionStart :: "real option"
  requestStart :: "real option"
  responseStart :: "real option"
  responseEnd :: "real option"
  domLoading :: "real option"
  domInteractive :: "real option"
  domContentLoadedEventEnd :: "real option"
  domComplete :: "real option"

record TimingPhases =
  dns_time :: real
  tcp_time :: real
  ssl_time :: real
  request_time :: real
  response_time :: real
  dom_processing :: real
  dom_content_loaded :: real
  complete_load :: real
  total_time :: real
  dns_pct :: real
  tcp_pct :: real
  ssl_pct :: real
  request_pct :: real
  response_pct :: real
  processing_pct :: real
  dom_content_pct :: real
  complete_pct :: real

definition calculateTimingPhases :: "NavigationTiming \<Rightarrow> TimingPhases" where
  "calculateTimingPhases navTiming =
     (let dnsTime = or0 (NavigationTiming.domainLookupEnd navTiming)
                    - or0 (NavigationTiming.domainLookupStart navTiming);
          tcpTime = or0 (NavigationTiming.connectEnd navTiming)
                    - or0 (NavigationTiming.connectStart navTiming);
          sslTime = or0 (NavigationTiming.connectEnd navTiming)
                    - or0 (NavigationTiming.secureConnectionStart navTiming);
          requestTime = or0 (NavigationTiming.responseStart navTiming)
                        - or0 (NavigationTiming.requestStart navTiming);
          responseTime = or0 (NavigationTiming.responseEnd navTiming)
                         - or0 (NavigationTiming.responseStart navTiming);
          domProcessing = or0 (domInteractive navTiming) - or0 (domLoading navTiming);
          domContentLoaded = or0 (domContentLoadedEventEnd navTiming)
                             - or0 (domInteractive navTiming);
          completeLoad = or0 (domComplete navTiming) - or0 (domContentLoadedEventEnd navTiming);
          totalTime = or0 (domComplete navTiming) - or0 (navigationStart navTiming);
          dnsPct = (if totalTime > 0 then (dnsTime / totalTime) * 100 else 0);
          tcpPct = (if totalTime > 0 then (tcpTime / totalTime) * 100 else 0);
          sslPct = (if totalTime > 0 then (sslTime / totalTime) * 100 else 0);
          requestPct = (if totalTime > 0 then (requestTime / totalTime) * 100 else 0);
          responsePct = (if totalTime > 0 then (responseTime / totalTime) * 100 else 0);
          processingPct = (if totalTime > 0 then (domProcessing / totalTime) * 100 else 0);
          domContentPct = (if totalTime > 0 then (domContentLoaded / totalTime) * 100 else 0);
          completePct = (if totalTime > 0 then (completeLoad / totalTime) * 100 else 0)
      in \<lparr>dns_time = dnsTime, tcp_time = tcpTime, ssl_time = sslTime,
          request_time = requestTime, response_time = responseTime,
          dom_processing = domProcessing, dom_content_loaded = domContentLoaded,
          complete_load = completeLoad, total_time = totalTime,
          dns_pct = dnsPct, tcp_pct = tcpPct, ssl_pct = sslPct, request_pct = requestPct,
          response_pct = responsePct, processing_pct = processingPct,
          dom_content_pct = domContentPct, complete_pct = completePct\<rparr>)"

section \<open>Metrics\<close>

record LCPEvent =
  startTime :: real
  url :: string

text \<open>
  A rectangle as it is read back from \<open>metrics.json\<close>: the report builder reads every
  field through \<open>|| 0\<close> and a missing rectangle as \<open>{}\<close>, so each field may be absent.
\<close>

record LayoutShiftSourceRect =
  x :: "real option"
  y :: "real option"
  width :: "real option"
  height :: "real option"
  top' :: "real option"
  right :: "real option"
  bottom :: "real option"
  left :: "real option"

record LayoutShiftSource =
  previousRect :: LayoutShiftSourceRect
  currentRect :: LayoutShiftSourceRect

record LayoutShift =
  startTime :: real
  value' :: real
  sources :: "LayoutShiftSource list option"

text \<open>\<open>Partial<Metrics>\<close>; the paint and user timings play no part below.\<close>

record Metrics =
  navigationTiming :: "NavigationTiming option"
  largestContentfulPaint :: "LCPEvent list option"
  layoutShifts :: "LayoutShift list option"

section \<open>The report builder (generateHtml)\<close>

text \<open>
  \<open>generateHtml\<close> binds the values of the report model one after the other and hands
  them to the template. Each definition below is one of these bindings, under the name of
  its variable; numbers are kept as numbers, where the source formats them with
  \<open>toFixed\<close> on the way to the template.
\<close>

definition emptyNavigationTiming :: NavigationTiming where
  "emptyNavigationTiming =
     \<lparr>navigationStart = None, domainLookupStart = None, domainLookupEnd = None,
      connectStart = None, connectEnd = None, secureConnectionStart = None,
      requestStart = None, responseStart = None, responseEnd = None, domLoading = None,
      domInteractive = None, domContentLoadedEventEnd = None, domComplete = None\<rparr>"

definition generateHtml_timing :: "Metrics \<Rightarrow> TimingPhases" where
  "generateHtml_timing metrics =
     (let navTiming = (case navigationTiming metrics of
                         None \<Rightarrow> emptyNavigationTiming | Some nt \<Rightarrow> nt)
      in calculateTimingPhases navTiming)"

definition generateHtml_ttfb :: "Metrics \<Rightarrow> real" where
  "generateHtml_ttfb metrics = response_time (generateHtml_timing metrics)"

text \<open>
  \<open>(metrics.largestContentfulPaint || [{}])[0] || {}\<close>, then \<open>startTime || 0\<close>:
  the first event of the array.
\<close>

definition generateHtml_lcpTime :: "Metrics \<Rightarrow> real" where
  "generateHtml_lcpTime metrics =
     (case largestContentfulPaint metrics of
        None \<Rightarrow> 0
      | Some [] \<Rightarrow> 0
      | Some (lcpData # rest) \<Rightarrow> LCPEvent.startTime lcpData)"

text \<open>The viewport of one shift: the first loop over its sources.\<close>

definition viewportWidth :: "LayoutShiftSource list \<Rightarrow> real" where
  "viewportWidth srcs =
     foldl (\<lambda>vw source. max (max vw (or0 (right (previousRect source))))
                             (or0 (right (currentRect source)))) 1920 srcs"

definition viewportHeight :: "LayoutShiftSource list \<Rightarrow> real" where
  "viewportHeight srcs =
     foldl (\<lambda>vh source. max (max vh (or0 (bottom (previousRect source))))
                             (or0 (bottom (currentRect source)))) 1536 srcs"

record SourceVisual =
  prevLeftPct :: real
  prevTopPct :: real
  prevWidthPct :: real
  prevHeightPct :: real
  prevX :: int
  prevY :: int
  prevWidth :: int
  prevHeight :: int
  currLeftPct :: real
  currTopPct :: real
  currWidthPct :: real
  currHeightPct :: real
  currX :: int
  currY :: int
  currWidth :: int
  currHeight :: int

definition sourceVisual :: "real \<Rightarrow> real \<Rightarrow> LayoutShiftSource \<Rightarrow> SourceVisual" where
  "sourceVisual vw vh source =
     (let prevRect = previousRect source; currRect = currentRect source
      in \<lparr>prevLeftPct = (if vw > 0 then (or0 (left prevRect) / vw) * 100 else 0),
          prevTopPct = (if vh > 0 then (or0 (top' prevRect) / vh) * 100 else 0),
          prevWidthPct = (if vw > 0 then (or0 (width prevRect) / vw) * 100 else 0),
          prevHeightPct = (if vh > 0 then (or0 (height prevRect) / vh) * 100 else 0),
          prevX = \<lfloor>or0 (x prevRect)\<rfloor>, prevY = \<lfloor>or0 (y prevRect)\<rfloor>,
          prevWidth = \<lfloor>or0 (width prevRect)\<rfloor>, prevHeight = \<lfloor>or0 (height prevRect)\<rfloor>,
          currLeftPct = (if vw > 0 then (or0 (left currRect) / vw) * 100 else 0),
          currTopPct = (if vh > 0 then (or0 (top' currRect) / vh) * 100 else 0),
          currWidthPct = (if vw > 0 then (or0 (width currRect) / vw) * 100 else 0),
          currHeightPct = (if vh > 0 then (or0 (height currRect) / vh) * 100 else 0),
          currX = \<lfloor>or0 (x currRect)\<rfloor>, currY = \<lfloor>or0 (y currRect)\<rfloor>,
          currWidth = \<lfloor>or0 (width currRect)\<rfloor>,
          currHeight = \<lfloor>or0 (height currRect)\<rfloor>\<rparr>)"

record LayoutVisual =
  time :: real
  value' :: real
  sources :: nat
  sourceVisualData :: "SourceVisual list"

text \<open>\<open>let sources = shift.sources || []\<close>.\<close>

definition shiftSources :: "LayoutShift \<Rightarrow> LayoutShiftSource list" where
  "shiftSources shift = (case LayoutShift.sources shift of None \<Rightarrow> [] | Some ss \<Rightarrow> ss)"

text \<open>
  The body of \<open>for (let shift of layoutShifts)\<close>: \<open>viewportWidth\<close> and
  \<open>viewportHeight\<close> are declared inside the loop, so they start from the default for
  every shift. A source whose current rectangle has no width or no height is skipped, and
  a shift without any remaining source adds nothing.
\<close>

definition layoutVisual :: "LayoutShift \<Rightarrow> LayoutVisual list" where
  "layoutVisual shift =
     (let srcs = shiftSources shift;
          vw = viewportWidth srcs;
          vh = viewportHeight srcs;
          svd = map (sourceVisual vw vh)
                  (filter (\<lambda>source. \<not> (or0 (width (currentRect source)) = 0
                                         \<or> or0 (height (currentRect source)) = 0)) srcs)
      in if length svd > 0
         then [\<lparr>time = LayoutShift.startTime shift, value' = LayoutShift.value' shift,
                sources = length svd, sourceVisualData = svd\<rparr>]
         else [])"

definition generateHtml_layoutVisualData :: "Metrics \<Rightarrow> LayoutVisual list" where
  "generateHtml_layoutVisualData metrics =
     (let layoutShifts = (case layoutShifts metrics of None \<Rightarrow> [] | Some ls \<Rightarrow> ls)
      in concat (map layoutVisual layoutShifts))"

text \<open>
  \<open>formatNumber\<close> takes a number or a string; \<open>toLocaleString\<close> stands for
  \<open>Number.prototype.toLocaleString\<close> on the integer that \<open>Math.floor\<close> returns.
\<close>

definition formatNumber :: "(int \<Rightarrow> string) \<Rightarrow> real + string \<Rightarrow> string" where
  "formatNumber toLocaleString num =
     (case num of Inl n \<Rightarrow> toLocaleString \<lfloor>n\<rfloor> | Inr str \<Rightarrow> str)"

text \<open>The size column of a waterfall row, from \<open>entry.size\<close>.\<close>

definition generateHtml_sizeStr :: "(int \<Rightarrow> string) \<Rightarrow> real \<Rightarrow> string" where
  "generateHtml_sizeStr toLocaleString entry_size =
     (let (size, suffix) =
            (if entry_size > 1024 then (entry_size / 1024, '' KB'')
             else if entry_size > 1048576 then (entry_size / 1048576, '' MB'')
             else if entry_size > 1073741824 then (entry_size / 1073741824, '' GB'')
             else (entry_size, '' B''))
      in formatNumber toLocaleString (Inl size) @ suffix)"

section \<open>TestRunner.fillOutHar\<close>

record HarPageTimings =
  p_TTFB :: "real option"
  p_LCP :: "real option"

text \<open>
  \<open>navTiming.responseStart - navTiming.navigationStart\<close>. With an operand missing the
  difference is \<open>NaN\<close>, which \<open>JSON.stringify\<close> writes as \<open>null\<close>: \<open>None\<close> here.
\<close>

definition fillOutHar_TTFB :: "Metrics option \<Rightarrow> HarPageTimings \<Rightarrow> HarPageTimings" where
  "fillOutHar_TTFB metrics pageTimings =
     (case metrics of
        None \<Rightarrow> pageTimings
      | Some m \<Rightarrow>
          (case navigationTiming m of
             None \<Rightarrow> pageTimings
           | Some navTiming \<Rightarrow>
               pageTimings\<lparr>p_TTFB :=
                 (case (NavigationTiming.responseStart navTiming, navigationStart navTiming) of
                    (Some rs, Some ns) \<Rightarrow> Some (rs - ns)
                  | _ \<Rightarrow> None)\<rparr>))"

text \<open>The LCP block: the last event of the array gives \<open>_LCP\<close> and \<open>lcpURL\<close>.\<close>

definition fillOutHar_LCP ::
  "Metrics option \<Rightarrow> HarPageTimings \<Rightarrow> HarPageTimings \<times> string option" where
  "fillOutHar_LCP metrics pageTimings =
     (case metrics of
        None \<Rightarrow> (pageTimings, None)
      | Some m \<Rightarrow>
          (case largestContentfulPaint m of
             None \<Rightarrow> (pageTimings, None)
           | Some lcpEvents \<Rightarrow>
               if length lcpEvents > 0
               then (let lcp = lcpEvents ! (length lcpEvents - 1)
                     in (pageTimings\<lparr>p_LCP := Some (LCPEvent.startTime lcp)\<rparr>,
                         if LCPEvent.url lcp \<noteq> [] then Some (LCPEvent.url lcp) else None))
               else (pageTimings, None)))"

text \<open>
  \<open>fillOutHar\<close> on the page timings of \<open>pages[0]\<close> and the entries of the archive;
  \<open>this.requests\<close> and \<open>this.metrics\<close> are arguments.
\<close>

definition fillOutHar ::
  "RequestData list \<Rightarrow> Metrics option \<Rightarrow> HarPageTimings \<times> HarEntry list
     \<Rightarrow> HarPageTimings \<times> HarEntry list" where
  "fillOutHar requests metrics harData =
     (let (pt, lcpURL) = fillOutHar_LCP metrics (fillOutHar_TTFB metrics (fst harData))
      in (pt, mergeEntries requests (snd harData) lcpURL))"

section \<open>Notions of the specification\<close>

text \<open>The sum of the eight page-level percentages.\<close>

definition percentageSum :: "TimingPhases \<Rightarrow> real" where
  "percentageSum t =
     TimingPhases.dns_pct t + tcp_pct t + TimingPhases.ssl_pct t + request_pct t
     + response_pct t + processing_pct t + dom_content_pct t + complete_pct t"

text \<open>
  The boundaries of a navigation record, as \<open>calculateTimingPhases\<close> reads them, follow
  one another in the order of a page load.
\<close>

definition navigationOrder :: "NavigationTiming \<Rightarrow> bool" where
  "navigationOrder n =
     (or0 (navigationStart n) \<le> or0 (NavigationTiming.domainLookupStart n)
      \<and> or0 (NavigationTiming.domainLookupStart n) \<le> or0 (NavigationTiming.domainLookupEnd n)
      \<and> or0 (NavigationTiming.domainLookupEnd n) \<le> or0 (NavigationTiming.connectStart n)
      \<and> or0 (NavigationTiming.connectStart n) \<le> or0 (NavigationTiming.connectEnd n)
      \<and> or0 (NavigationTiming.connectEnd n) \<le> or0 (NavigationTiming.requestStart n)
      \<and> or0 (NavigationTiming.requestStart n) \<le> or0 (NavigationTiming.responseStart n)
      \<and> or0 (NavigationTiming.responseStart n) \<le> or0 (NavigationTiming.responseEnd n)
      \<and> or0 (NavigationTiming.responseEnd n) \<le> or0 (domLoading n)
      \<and> or0 (domLoading n) \<le> or0 (domInteractive n)
      \<and> or0 (domInteractive n) \<le> or0 (domContentLoadedEventEnd n)
      \<and> or0 (domContentLoadedEventEnd n) \<le> or0 (domComplete n))"

text \<open>The right and bottom edges of all rectangles of a list of sources.\<close>

definition rightEdges :: "LayoutShiftSource list \<Rightarrow> real set" where
  "rightEdges srcs =
     (\<Union>s \<in> set srcs. {or0 (right (previousRect s)), or0 (right (currentRect s))})"

definition bottomEdges :: "LayoutShiftSource list \<Rightarrow> real set" where
  "bottomEdges srcs =
     (\<Union>s \<in> set srcs. {or0 (bottom (previousRect s)), or0 (bottom (currentRect s))})"

section \<open>Test data\<close>

text \<open>
  An archive entry as the browser writes it, before any private timing field is added,
  and a live sample as \<open>preparePage\<close> pushes it (no \<open>rawTimings\<close> key).
\<close>

definition plainEntry :: "string \<Rightarrow> HarEntry" where
  "plainEntry u =
     \<lparr>request = \<lparr>HarRequest.url = u, HarRequest.method' = ''GET''\<rparr>,
      response = \<lparr>HarResponse.status = 200, transferSize = None,
                  content = \<lparr>HarContent.size' = 0, mimeType = ''text/html''\<rparr>\<rparr>,
      time = 0, startedDateTime = ''2024-01-01T00:00:00.000Z'',
      p_dns_start = None, p_dns_end = None, p_connect_start = None, p_connect_end = None,
      p_secure_start = None, p_secure_end = None, p_request_start = None,
      p_request_end = None, p_response_start = None, p_response_end = None,
      p_is_lcp = None\<rparr>"

definition sample :: "string \<Rightarrow> real \<Rightarrow> real \<Rightarrow> real \<Rightarrow> RequestData" where
  "sample u base scs ce =
     \<lparr>RequestData.url = u,
      timing = \<lparr>RequestTiming.startTime = base,
                RequestTiming.domainLookupStart = base + 1,
                RequestTiming.domainLookupEnd = base + 2,
                RequestTiming.connectStart = base + 3,
                RequestTiming.secureConnectionStart = scs,
                RequestTiming.connectEnd = ce,
                RequestTiming.requestStart = base + 40,
                RequestTiming.responseStart = base + 50,
                RequestTiming.responseEnd = base + 60\<rparr>,
      rawTimings = None\<rparr>"

text \<open>
  The entry of the end-to-end scenario: request start 100, response start 150, response
  end 200, no DNS, connect or secure boundary; the request end is left open.
\<close>

definition scenarioEntry :: "real option \<Rightarrow> HarEntry" where
  "scenarioEntry requestEnd =
     (plainEntry ''https://example.com/'')
       \<lparr>p_request_start := Some 100, p_request_end := requestEnd,
        p_response_start := Some 150, p_response_end := Some 200\<rparr>"

definition archiveOf :: "HarEntry list \<Rightarrow> HarLog" where
  "archiveOf es = \<lparr>log' = Some \<lparr>entries = Some (map Some es)\<rparr>\<rparr>"

text \<open>An archive whose only entry is \<open>null\<close>.\<close>

definition nullEntryArchive :: HarLog where
  "nullEntryArchive = \<lparr>log' = Some \<lparr>entries = Some [None]\<rparr>\<rparr>"

text \<open>
  \<open>JSON.parse\<close> on three texts: the truncated text \<open>{\<close>, which it rejects, the
  text \<open>null\<close>, and any other text, taken to be the serialisation of the archive \<open>h\<close>.
\<close>

definition parseAs :: "HarLog \<Rightarrow> string \<Rightarrow> error + HarLog option" where
  "parseAs h data =
     (if data = ''{'' then Inl SyntaxError
      else if data = ''null'' then Inr None
      else Inr (Some h))"

text \<open>A clock that reads every date string as time 0.\<close>

definition epoch :: "string \<Rightarrow> real" where
  "epoch s = 0"

text \<open>
  The navigation record of a page loaded over TLS, all boundaries in order: the TLS
  handshake (20 to 100) lies inside the connection phase (10 to 100).
\<close>

definition tlsNavigation :: NavigationTiming where
  "tlsNavigation =
     \<lparr>navigationStart = Some 0, domainLookupStart = Some 5, domainLookupEnd = Some 10,
      connectStart = Some 10, connectEnd = Some 100, secureConnectionStart = Some 20,
      requestStart = Some 100, responseStart = Some 150, responseEnd = Some 160,
      domLoading = Some 160, domInteractive = Some 180, domContentLoadedEventEnd = Some 190,
      domComplete = Some 200\<rparr>"

definition metricsOf :: "NavigationTiming \<Rightarrow> LCPEvent list \<Rightarrow> LayoutShift list \<Rightarrow> Metrics" where
  "metricsOf n lcps shifts =
     \<lparr>navigationTiming = Some n, largestContentfulPaint = Some lcps,
      layoutShifts = Some shifts\<rparr>"

text \<open>A rectangle from its left, top, width and height, and a shift that moves one.\<close>

definition rect :: "real \<Rightarrow> real \<Rightarrow> real \<Rightarrow> real \<Rightarrow> LayoutShiftSourceRect" where
  "rect l t w h =
     \<lparr>x = Some l, y = Some t, width = Some w, height = Some h, top' = Some t,
      right = Some (l + w), bottom = Some (t + h), left = Some l\<rparr>"

definition shiftOf :: "LayoutShiftSourceRect \<Rightarrow> LayoutShiftSourceRect \<Rightarrow> LayoutShift" where
  "shiftOf p c =
     \<lparr>LayoutShift.startTime = 10, value' = 1 / 100,
      sources = Some [\<lparr>previousRect = p, currentRect = c\<rparr>]\<rparr>"

text \<open>Two LCP candidates: a small image first, the hero image last.\<close>

definition lcpCandidates :: "LCPEvent list" where
  "lcpCandidates =
     [\<lparr>LCPEvent.startTime = 1000, url = ''https://example.com/logo.png''\<rparr>,
      \<lparr>LCPEvent.startTime = 2500, url = ''https://example.com/hero.jpg''\<rparr>]"

definition noPageTimings :: HarPageTimings where
  "noPageTimings = \<lparr>p_TTFB = None, p_LCP = None\<rparr>"

section \<open>The merge (TestRunner.mergeEntries)\<close>

lemma findIndex_Some_less: "findIndex P xs = Some i \<Longrightarrow> i < length xs \<and> P (xs ! i)"
  by (induction xs arbitrary: i) (auto split: if_splits option.splits)

lemma findIndex_first: "findIndex P xs = Some i \<Longrightarrow> j < i \<Longrightarrow> \<not> P (xs ! j)"
proof (induction xs arbitrary: i j)
  case Nil
  then show ?case by simp
next
  case (Cons x xs)
  show ?case
  proof (cases j)
    case 0
    with Cons.prems show ?thesis by (auto split: if_splits)
  next
    case (Suc k)
    with Cons show ?thesis by (auto split: if_splits option.splits)
  qed
qed

lemma updatedObject_request: "request (updatedObject e r l) = request e"
  by (simp add: updatedObject_def Let_def)

lemma mergeStep_length: "length (mergeStep l hs r) = length hs"
  by (simp add: mergeStep_def split: option.splits)

lemma mergeStep_request: "map request (mergeStep l hs r) = map request hs"
  by (auto simp: mergeStep_def map_update updatedObject_request list_update_same_conv
      dest: findIndex_Some_less split: option.splits)

text \<open>
  Whatever the samples, an entry that comes after another entry with the same URL is
  never touched: the scan always stops at the earlier one.
\<close>

lemma mergeStep_later_duplicate:
  assumes "i < length hs" "j < i"
    and "HarRequest.url (request (hs ! j)) = HarRequest.url (request (hs ! i))"
  shows "mergeStep l hs r ! i = hs ! i"
proof (cases "findIndex (\<lambda>object. HarRequest.url (request object) = RequestData.url r
                                \<and> \<not> truthyFlag (rawTimings r)) hs")
  case None
  then show ?thesis by (simp add: mergeStep_def)
next
  case (Some k)
  have "k \<noteq> i"
  proof
    assume "k = i"
    with Some findIndex_Some_less [OF Some] findIndex_first [OF Some, of j] assms
    show False by auto
  qed
  with Some show ?thesis by (simp add: mergeStep_def)
qed

lemma mergeEntries_later_duplicate:
  assumes "i < length hs" "j < i"
    and "HarRequest.url (request (hs ! j)) = HarRequest.url (request (hs ! i))"
  shows "mergeEntries rs hs l ! i = hs ! i"
  using assms
proof (induction rs arbitrary: hs)
  case Nil
  then show ?case by (simp add: mergeEntries_def)
next
  case (Cons r rs)
  let ?hs = "mergeStep l hs r"
  have len: "i < length ?hs" using Cons.prems by (simp add: mergeStep_length)
  have req: "map request ?hs = map request hs" by (rule mergeStep_request)
  have same: "request (?hs ! k) = request (hs ! k)" if "k < length hs" for k
    using that req by (metis length_map nth_map)
  have "HarRequest.url (request (?hs ! j)) = HarRequest.url (request (?hs ! i))"
    using Cons.prems same [of i] same [of j] by simp
  with len Cons.prems(2) have "mergeEntries rs ?hs l ! i = ?hs ! i"
    by (rule Cons.IH)
  also have "?hs ! i = hs ! i" using Cons.prems by (rule mergeStep_later_duplicate)
  finally show ?case by (simp add: mergeEntries_def)
qed

text \<open>
  C1. Two archive entries share a URL and two live samples carry that URL. The first
  sample updates entry 0, and so does the second: entry 0 ends with the timings of the
  second sample (DNS start 501, request start 540, response end 560) and entry 1 is
  returned without any timing field. The samples do not update distinct entries, and
  entry 0 is updated twice.
\<close>

theorem mergeEntries_duplicate_url:
  "map (\<lambda>e. (p_dns_start e, p_request_start e, p_response_end e))
     (mergeEntries [sample ''https://example.com/a.js'' 100 0 4,
                    sample ''https://example.com/a.js'' 500 0 504]
                   [plainEntry ''https://example.com/a.js'',
                    plainEntry ''https://example.com/a.js'']
                   None)
   = [(Some 501, Some 540, Some 560), (None, None, None)]"
  by (simp add: mergeEntries_def mergeStep_def truthyFlag_def updatedObject_def Let_def
      plainEntry_def sample_def)

text \<open>
  The three connection fields of an enriched entry, for every sample: the connect end is
  guarded by \<open>> 0\<close>, the two secure fields by truthiness.
\<close>

lemma updatedObject_secure:
  "p_connect_end (updatedObject e r l)
     = Some (if RequestTiming.secureConnectionStart (timing r) > 0
             then RequestTiming.secureConnectionStart (timing r)
             else RequestTiming.connectEnd (timing r))"
  "p_secure_start (updatedObject e r l)
     = Some (if RequestTiming.secureConnectionStart (timing r) \<noteq> 0
             then RequestTiming.secureConnectionStart (timing r) else - 1)"
  "p_secure_end (updatedObject e r l)
     = Some (if RequestTiming.secureConnectionStart (timing r) \<noteq> 0
             then RequestTiming.connectEnd (timing r) else - 1)"
  by (simp_all add: updatedObject_def truthy_def Let_def)

text \<open>
  C6. A sample of a plain-HTTP request: its \<open>secureConnectionStart\<close> is \<open>-1\<close>, the
  browser's value for "not available", and its connection ended at 30. No
  secure-connection boundary exists, yet the enriched entry gets \<open>_secure_end = 30\<close>
  instead of the sentinel \<open>-1\<close>: the guards of \<open>secureStart\<close> and \<open>secureEnd\<close> test
  truthiness, which only the value 0 fails, where the guard of \<open>connectEnd\<close> tests
  \<open>> 0\<close>.
\<close>

theorem mergeEntries_secure_end_without_tls:
  "map (\<lambda>e. (p_connect_end e, p_secure_start e, p_secure_end e))
     (mergeEntries [sample ''http://example.com/'' 0 (- 1) 30]
                   [plainEntry ''http://example.com/''] None)
   = [(Some 30, Some (- 1), Some 30)]"
  by (simp add: mergeEntries_def mergeStep_def truthyFlag_def truthy_def updatedObject_def
      Let_def plainEntry_def sample_def)

section \<open>Page-level percentages (calculateTimingPhases)\<close>

lemma seven_shares_le_100:
  fixes T :: real
  assumes "0 < T" "a + b + c + d + e + f + g \<le> T"
  shows "a / T * 100 + b / T * 100 + c / T * 100 + d / T * 100 + e / T * 100
         + f / T * 100 + g / T * 100 \<le> 100"
proof -
  have "a / T * 100 + b / T * 100 + c / T * 100 + d / T * 100 + e / T * 100
         + f / T * 100 + g / T * 100 = (a + b + c + d + e + f + g) / T * 100"
    by (simp add: add_divide_distrib)
  also have "\<dots> \<le> 100" using assms by (simp add: divide_le_eq)
  finally show ?thesis .
qed

lemma percentages_zero_total:
  assumes "TimingPhases.total_time (calculateTimingPhases n) \<le> 0"
  shows "TimingPhases.dns_pct (calculateTimingPhases n) = 0
    \<and> tcp_pct (calculateTimingPhases n) = 0
    \<and> TimingPhases.ssl_pct (calculateTimingPhases n) = 0
    \<and> request_pct (calculateTimingPhases n) = 0
    \<and> response_pct (calculateTimingPhases n) = 0
    \<and> processing_pct (calculateTimingPhases n) = 0
    \<and> dom_content_pct (calculateTimingPhases n) = 0
    \<and> complete_pct (calculateTimingPhases n) = 0"
  using assms by (simp add: calculateTimingPhases_def Let_def)

lemma percentages_in_order:
  assumes "navigationOrder n"
  shows "percentageSum (calculateTimingPhases n)
           - TimingPhases.ssl_pct (calculateTimingPhases n) \<le> 100"
proof (cases "0 < or0 (domComplete n) - or0 (navigationStart n)")
  case False
  then show ?thesis by (simp add: percentageSum_def calculateTimingPhases_def Let_def)
next
  case True
  let ?T = "or0 (domComplete n) - or0 (navigationStart n)"
  let ?a = "or0 (NavigationTiming.domainLookupEnd n) - or0 (NavigationTiming.domainLookupStart n)"
  let ?b = "or0 (NavigationTiming.connectEnd n) - or0 (NavigationTiming.connectStart n)"
  let ?c = "or0 (NavigationTiming.responseStart n) - or0 (NavigationTiming.requestStart n)"
  let ?d = "or0 (NavigationTiming.responseEnd n) - or0 (NavigationTiming.responseStart n)"
  let ?e = "or0 (domInteractive n) - or0 (domLoading n)"
  let ?f = "or0 (domContentLoadedEventEnd n) - or0 (domInteractive n)"
  let ?g = "or0 (domComplete n) - or0 (domContentLoadedEventEnd n)"
  have le: "?a + ?b + ?c + ?d + ?e + ?f + ?g \<le> ?T"
    using assms unfolding navigationOrder_def by linarith
  have "percentageSum (calculateTimingPhases n) - TimingPhases.ssl_pct (calculateTimingPhases n)
      = ?a / ?T * 100 + ?b / ?T * 100 + ?c / ?T * 100 + ?d / ?T * 100 + ?e / ?T * 100
         + ?f / ?T * 100 + ?g / ?T * 100"
    using True by (simp add: percentageSum_def calculateTimingPhases_def Let_def)
  also have "\<dots> \<le> 100" using True le by (rule seven_shares_le_100)
  finally show ?thesis .
qed

text \<open>
  C2, as the claim states it, fails on a page loaded over TLS with all boundaries in
  order: the TCP phase (10 to 100) and the SSL phase (20 to 100) overlap, and the eight
  percentages sum to 137.5. It also fails without the SSL share when a boundary is out
  of order: in the same record without \<open>domLoading\<close>, which is then read as 0, the
  DOM-processing phase alone covers 90 percent and the seven other percentages sum to
  177.5.
\<close>

theorem percentages_exceed_100:
  "percentageSum (calculateTimingPhases tlsNavigation) = 275 / 2
   \<and> \<not> percentageSum (calculateTimingPhases tlsNavigation) \<le> 100
   \<and> percentageSum (calculateTimingPhases (tlsNavigation\<lparr>domLoading := None\<rparr>))
       - TimingPhases.ssl_pct (calculateTimingPhases (tlsNavigation\<lparr>domLoading := None\<rparr>))
       = 355 / 2"
  by (simp add: percentageSum_def calculateTimingPhases_def tlsNavigation_def or0_def Let_def)

text \<open>
  C2, amended. For every navigation record: when the total load time is 0 or negative,
  each of the eight percentages is exactly 0; and when the boundaries of the record are
  in navigation order, the percentages other than the SSL one (which measures a part of
  the TCP phase) sum to at most 100.
\<close>

theorem timing_percentages:
  "(TimingPhases.total_time (calculateTimingPhases n) \<le> 0 \<longrightarrow>
      TimingPhases.dns_pct (calculateTimingPhases n) = 0
      \<and> tcp_pct (calculateTimingPhases n) = 0
      \<and> TimingPhases.ssl_pct (calculateTimingPhases n) = 0
      \<and> request_pct (calculateTimingPhases n) = 0
      \<and> response_pct (calculateTimingPhases n) = 0
      \<and> processing_pct (calculateTimingPhases n) = 0
      \<and> dom_content_pct (calculateTimingPhases n) = 0
      \<and> complete_pct (calculateTimingPhases n) = 0)
   \<and> (navigationOrder n \<longrightarrow>
        percentageSum (calculateTimingPhases n)
          - TimingPhases.ssl_pct (calculateTimingPhases n) \<le> 100)"
  using percentages_zero_total [of n] percentages_in_order [of n] by blast

theorem timing_percentages_witness:
  "TimingPhases.total_time (calculateTimingPhases emptyNavigationTiming) \<le> 0
   \<and> percentageSum (calculateTimingPhases emptyNavigationTiming) = 0
   \<and> navigationOrder tlsNavigation
   \<and> 0 < TimingPhases.total_time (calculateTimingPhases tlsNavigation)
   \<and> percentageSum (calculateTimingPhases tlsNavigation)
        - TimingPhases.ssl_pct (calculateTimingPhases tlsNavigation) \<le> 100"
proof -
  have z: "TimingPhases.total_time (calculateTimingPhases emptyNavigationTiming) \<le> 0"
    by (simp add: calculateTimingPhases_def emptyNavigationTiming_def or0_def Let_def)
  have o: "navigationOrder tlsNavigation"
    by (simp add: navigationOrder_def tlsNavigation_def or0_def)
  have t: "0 < TimingPhases.total_time (calculateTimingPhases tlsNavigation)"
    by (simp add: calculateTimingPhases_def tlsNavigation_def or0_def Let_def)
  from z timing_percentages [of emptyNavigationTiming]
  have "percentageSum (calculateTimingPhases emptyNavigationTiming) = 0"
    by (simp add: percentageSum_def)
  with z o t timing_percentages [of tlsNavigation] show ?thesis by blast
qed

section \<open>The archive parser (parseHarFile)\<close>

lemma parseEntries_Some: "parseEntries getTime ps (map Some es) = Inr (map (harRequest getTime ps) es)"
  by (induction es) simp_all

lemma parseEntries_null: "None \<in> set es \<Longrightarrow> parseEntries getTime ps es = Inl TypeError"
proof (induction es)
  case Nil
  then show ?case by simp
next
  case (Cons x es)
  show ?case
  proof (cases x)
    case None
    then show ?thesis by simp
  next
    case (Some e)
    with Cons show ?thesis by simp
  qed
qed

lemma parseEntries_Inr:
  "parseEntries getTime ps es = Inr rs \<Longrightarrow> es = map Some (map the es) \<and> None \<notin> set es"
proof (induction es arbitrary: rs)
  case Nil
  then show ?case by simp
next
  case (Cons x es)
  then show ?case by (cases x) (auto split: sum.splits)
qed

lemma no_null_entries: "None \<notin> set es \<Longrightarrow> es = map Some (map the es)"
  by (induction es) auto

lemma parseHarFile_records:
  assumes "parse data = Inr (Some h)" "harEntriesOf h \<noteq> []" "None \<notin> set (harEntriesOf h)"
  shows "parseHarFile parse getTime (File data)
     = Some (map (harRequest getTime
                    (if startedDateTime (the (hd (harEntriesOf h))) = [] then None
                     else Some (getTime (startedDateTime (the (hd (harEntriesOf h)))))))
                 (map the (harEntriesOf h)))"
proof -
  let ?es = "harEntriesOf h"
  have es: "?es = map Some (map the ?es)" using assms(3) by (rule no_null_entries)
  from assms(2,3) obtain first where first: "hd ?es = Some first"
    by (cases "hd ?es") (auto dest: hd_in_set)
  have loop: "parseEntries getTime ps ?es = Inr (map (harRequest getTime ps) (map the ?es))"
    for ps
    using parseEntries_Some [of getTime ps "map the ?es"] es by simp
  show ?thesis
    using assms(1,2) first
    by (simp add: parseHarFile_def parseHarTry_def loadJsonFile_def readFileSync_def
        existsSync_def Let_def loop)
qed

lemma parseHarFile_Some:
  assumes "parseHarFile parse getTime harPath = Some rs"
  shows "\<exists>ps es. rs = map (harRequest getTime ps) es"
proof -
  from assms obtain ps es where loop: "parseEntries getTime ps es = Inr rs"
    by (auto simp: parseHarFile_def parseHarTry_def Let_def
        split: option.splits sum.splits if_splits)
  from parseEntries_Inr [OF loop] have "es = map Some (map the es)" by simp
  with loop parseEntries_Some [of getTime ps "map the es"]
  have "rs = map (harRequest getTime ps) (map the es)" by simp
  then show ?thesis by blast
qed

lemma harRequest_url: "NetworkRequest.url (harRequest getTime ps e) = HarRequest.url (request e)"
  by (simp add: harRequest_def Let_def)

lemma harRequest_percentages:
  "Timings.dns_pct (timings (harRequest getTime ps e)) =
     (if Timings.total_time (timings (harRequest getTime ps e)) > 0
         \<and> Timings.dns_time (timings (harRequest getTime ps e)) > 0
      then Timings.dns_time (timings (harRequest getTime ps e))
           / Timings.total_time (timings (harRequest getTime ps e)) * 100 else 0)"
  "connect_pct (timings (harRequest getTime ps e)) =
     (if Timings.total_time (timings (harRequest getTime ps e)) > 0
         \<and> connect_time (timings (harRequest getTime ps e)) > 0
      then connect_time (timings (harRequest getTime ps e))
           / Timings.total_time (timings (harRequest getTime ps e)) * 100 else 0)"
  "Timings.ssl_pct (timings (harRequest getTime ps e)) =
     (if Timings.total_time (timings (harRequest getTime ps e)) > 0
         \<and> Timings.ssl_time (timings (harRequest getTime ps e)) > 0
      then Timings.ssl_time (timings (harRequest getTime ps e))
           / Timings.total_time (timings (harRequest getTime ps e)) * 100 else 0)"
  "send_pct (timings (harRequest getTime ps e)) =
     (if Timings.total_time (timings (harRequest getTime ps e)) > 0
      then send_time (timings (harRequest getTime ps e))
           / Timings.total_time (timings (harRequest getTime ps e)) * 100 else 0)"
  "wait_pct (timings (harRequest getTime ps e)) =
     (if Timings.total_time (timings (harRequest getTime ps e)) > 0
      then wait_time (timings (harRequest getTime ps e))
           / Timings.total_time (timings (harRequest getTime ps e)) * 100 else 0)"
  "receive_pct (timings (harRequest getTime ps e)) =
     (if Timings.total_time (timings (harRequest getTime ps e)) > 0
      then receive_time (timings (harRequest getTime ps e))
           / Timings.total_time (timings (harRequest getTime ps e)) * 100 else 0)"
  by (simp_all add: harRequest_def Let_def)

text \<open>
  C3, as the claim states it, fails: the scenario names no request-end boundary, the
  absent boundary is read as 0, and the wait time is 150 - 0 = 150, not 50.
\<close>

theorem scenario_wait_time_150:
  "map_option (map (wait_time \<circ> timings))
     (parseHarFile (parseAs (archiveOf [scenarioEntry None])) epoch (File ''har''))
   = Some [150]
   \<and> map_option (map (wait_time \<circ> timings))
     (parseHarFile (parseAs (archiveOf [scenarioEntry None])) epoch (File ''har''))
   \<noteq> Some [50]"
  by (simp add: parseHarFile_def parseHarTry_def loadJsonFile_def readFileSync_def
      existsSync_def harEntriesOf_def archiveOf_def parseAs_def scenarioEntry_def
      plainEntry_def harRequest_def Let_def or0_def)

text \<open>
  C3, amended. For an archive with exactly the entry of the scenario and no live sample
  merged, the record has \<open>wait_time\<close> = 150 minus the request-end boundary, read as 0
  when it is absent (so 150 for the scenario as given, and 50 once a request end of 100
  is recorded), \<open>receive_time\<close> = 50, \<open>total_time\<close> = 100, \<open>dns_time\<close> = 0 and
  \<open>dns_pct\<close> = 0.
\<close>

theorem scenario_record:
  "map_option (map (\<lambda>r. (wait_time (timings r), receive_time (timings r),
                          Timings.total_time (timings r), Timings.dns_time (timings r),
                          Timings.dns_pct (timings r))))
     (parseHarFile (parseAs (archiveOf [scenarioEntry requestEnd])) getTime (File ''har''))
   = Some [(150 - or0 requestEnd, 50, 100, 0, 0)]"
  by (simp add: parseHarFile_def parseHarTry_def loadJsonFile_def readFileSync_def
      existsSync_def harEntriesOf_def archiveOf_def parseAs_def scenarioEntry_def
      plainEntry_def harRequest_def Let_def or0_def)

text \<open>
  C7. In every record that the parser returns, each percentage is duration / total * 100
  when the total is positive and 0 otherwise; the DNS, connect and SSL percentages are
  moreover 0 when their own duration is 0 or negative, while the send, wait and receive
  percentages depend on the total alone.
\<close>

theorem request_percentages:
  assumes "parseHarFile parse getTime harPath = Some rs" and "r \<in> set rs"
  shows "Timings.dns_pct (timings r) =
           (if Timings.total_time (timings r) > 0 \<and> Timings.dns_time (timings r) > 0
            then Timings.dns_time (timings r) / Timings.total_time (timings r) * 100 else 0)
       \<and> connect_pct (timings r) =
           (if Timings.total_time (timings r) > 0 \<and> connect_time (timings r) > 0
            then connect_time (timings r) / Timings.total_time (timings r) * 100 else 0)
       \<and> Timings.ssl_pct (timings r) =
           (if Timings.total_time (timings r) > 0 \<and> Timings.ssl_time (timings r) > 0
            then Timings.ssl_time (timings r) / Timings.total_time (timings r) * 100 else 0)
       \<and> send_pct (timings r) =
           (if Timings.total_time (timings r) > 0
            then send_time (timings r) / Timings.total_time (timings r) * 100 else 0)
       \<and> wait_pct (timings r) =
           (if Timings.total_time (timings r) > 0
            then wait_time (timings r) / Timings.total_time (timings r) * 100 else 0)
       \<and> receive_pct (timings r) =
           (if Timings.total_time (timings r) > 0
            then receive_time (timings r) / Timings.total_time (timings r) * 100 else 0)"
proof -
  from assms(1) obtain ps es where "rs = map (harRequest getTime ps) es"
    using parseHarFile_Some by blast
  with assms(2) obtain e where r: "r = harRequest getTime ps e" by auto
  show ?thesis unfolding r using harRequest_percentages [of getTime ps e] by blast
qed

theorem request_percentages_witness:
  "parseHarFile (parseAs (archiveOf [scenarioEntry (Some 110)])) epoch (File ''har'')
     = Some [harRequest epoch (Some 0) (scenarioEntry (Some 110))]
   \<and> Timings.total_time (timings (harRequest epoch (Some 0) (scenarioEntry (Some 110)))) = 100
   \<and> Timings.dns_pct (timings (harRequest epoch (Some 0) (scenarioEntry (Some 110)))) = 0
   \<and> send_pct (timings (harRequest epoch (Some 0) (scenarioEntry (Some 110)))) = 10
   \<and> wait_pct (timings (harRequest epoch (Some 0) (scenarioEntry (Some 110)))) = 40
   \<and> receive_pct (timings (harRequest epoch (Some 0) (scenarioEntry (Some 110)))) = 50"
proof -
  let ?r = "harRequest epoch (Some 0) (scenarioEntry (Some 110))"
  have p: "parseHarFile (parseAs (archiveOf [scenarioEntry (Some 110)])) epoch (File ''har'')
             = Some [?r]"
    by (simp add: parseHarFile_def parseHarTry_def loadJsonFile_def readFileSync_def
        existsSync_def harEntriesOf_def archiveOf_def parseAs_def scenarioEntry_def
        plainEntry_def epoch_def)
  have m: "?r \<in> set [?r]" by simp
  have v: "Timings.total_time (timings ?r) = 100" "Timings.dns_time (timings ?r) = 0"
    "send_time (timings ?r) = 10" "wait_time (timings ?r) = 40"
    "receive_time (timings ?r) = 50"
    by (simp_all add: harRequest_def Let_def scenarioEntry_def plainEntry_def or0_def)
  from request_percentages [OF p m] v p show ?thesis by simp
qed

text \<open>
  C9, as the claim states it, fails on an archive whose file is present, whose text
  parses and which has one entry, the value \<open>null\<close>: reading the entry throws inside
  the \<open>try\<close> block, and the parser returns \<open>null\<close>, not one record per entry.
\<close>

theorem null_entry_gives_null:
  "parseAs nullEntryArchive ''har'' = Inr (Some nullEntryArchive)
   \<and> length (harEntriesOf nullEntryArchive) = 1
   \<and> parseHarFile (parseAs nullEntryArchive) epoch (File ''har'') = None"
  by (simp add: parseAs_def nullEntryArchive_def harEntriesOf_def parseHarFile_def
      parseHarTry_def loadJsonFile_def readFileSync_def existsSync_def)

text \<open>
  C9, amended. The parser never throws. It returns \<open>null\<close> when the file is absent or
  cannot be read, when \<open>JSON.parse\<close> throws on its text, when the archive has no
  entries, and also when the parsed value is \<open>null\<close> or one of the entries is
  \<open>null\<close>, since every exception of the \<open>try\<close> block ends in the \<open>catch\<close> clause.
  Otherwise, for an archive all of whose entries are objects of the shape of
  \<open>HarEntry\<close>, it returns one record per entry, in the order of the entries.
\<close>

theorem parseHarFile_null_or_records:
  "(harPath = Missing \<longrightarrow> parseHarFile parse getTime harPath = None)
   \<and> (harPath = Unreadable \<longrightarrow> parseHarFile parse getTime harPath = None)
   \<and> (harPath = File data \<and> parse data = Inl e \<longrightarrow>
        parseHarFile parse getTime harPath = None)
   \<and> (harPath = File data \<and> parse data = Inr None \<longrightarrow>
        parseHarFile parse getTime harPath = None)
   \<and> (harPath = File data \<and> parse data = Inr (Some h) \<and> harEntriesOf h = [] \<longrightarrow>
        parseHarFile parse getTime harPath = None)
   \<and> (harPath = File data \<and> parse data = Inr (Some h) \<and> None \<in> set (harEntriesOf h) \<longrightarrow>
        parseHarFile parse getTime harPath = None)
   \<and> (harPath = File data \<and> parse data = Inr (Some h) \<and> harEntriesOf h \<noteq> []
        \<and> None \<notin> set (harEntriesOf h) \<longrightarrow>
        (\<exists>rs. parseHarFile parse getTime harPath = Some rs
              \<and> length rs = length (harEntriesOf h)
              \<and> map NetworkRequest.url rs
                  = map (HarRequest.url \<circ> request \<circ> the) (harEntriesOf h)))"
proof (intro conjI impI)
  assume "harPath = Missing"
  then show "parseHarFile parse getTime harPath = None"
    by (simp add: parseHarFile_def existsSync_def)
next
  assume "harPath = Unreadable"
  then show "parseHarFile parse getTime harPath = None"
    by (simp add: parseHarFile_def parseHarTry_def loadJsonFile_def readFileSync_def)
next
  assume "harPath = File data \<and> parse data = Inl e"
  then show "parseHarFile parse getTime harPath = None"
    by (simp add: parseHarFile_def parseHarTry_def loadJsonFile_def readFileSync_def)
next
  assume "harPath = File data \<and> parse data = Inr None"
  then show "parseHarFile parse getTime harPath = None"
    by (simp add: parseHarFile_def parseHarTry_def loadJsonFile_def readFileSync_def)
next
  assume "harPath = File data \<and> parse data = Inr (Some h) \<and> harEntriesOf h = []"
  then show "parseHarFile parse getTime harPath = None"
    by (simp add: parseHarFile_def parseHarTry_def loadJsonFile_def readFileSync_def)
next
  assume a: "harPath = File data \<and> parse data = Inr (Some h) \<and> None \<in> set (harEntriesOf h)"
  then have "parseEntries getTime ps (harEntriesOf h) = Inl TypeError" for ps
    by (simp add: parseEntries_null)
  with a show "parseHarFile parse getTime harPath = None"
    by (simp add: parseHarFile_def parseHarTry_def loadJsonFile_def readFileSync_def Let_def
        split: option.splits)
next
  assume a: "harPath = File data \<and> parse data = Inr (Some h) \<and> harEntriesOf h \<noteq> []
        \<and> None \<notin> set (harEntriesOf h)"
  then have "parseHarFile parse getTime harPath
     = Some (map (harRequest getTime
                    (if startedDateTime (the (hd (harEntriesOf h))) = [] then None
                     else Some (getTime (startedDateTime (the (hd (harEntriesOf h)))))))
                 (map the (harEntriesOf h)))"
    using parseHarFile_records [of parse data h getTime] by simp
  then show "\<exists>rs. parseHarFile parse getTime harPath = Some rs
              \<and> length rs = length (harEntriesOf h)
              \<and> map NetworkRequest.url rs
                  = map (HarRequest.url \<circ> request \<circ> the) (harEntriesOf h)"
    by (simp add: harRequest_url comp_def)
qed

theorem parseHarFile_null_or_records_witness:
  "parseHarFile (parseAs (archiveOf [])) epoch Missing = None
   \<and> parseHarFile (parseAs (archiveOf [])) epoch Unreadable = None
   \<and> parseAs (archiveOf []) ''{'' = Inl SyntaxError
   \<and> parseHarFile (parseAs (archiveOf [])) epoch (File ''{'') = None
   \<and> parseAs (archiveOf []) ''null'' = Inr None
   \<and> parseHarFile (parseAs (archiveOf [])) epoch (File ''null'') = None
   \<and> parseAs (archiveOf []) ''{}'' = Inr (Some (archiveOf []))
   \<and> harEntriesOf (archiveOf []) = []
   \<and> parseHarFile (parseAs (archiveOf [])) epoch (File ''{}'') = None
   \<and> None \<in> set (harEntriesOf nullEntryArchive)
   \<and> parseHarFile (parseAs nullEntryArchive) epoch (File ''har'') = None
   \<and> harEntriesOf (archiveOf [scenarioEntry None, plainEntry ''https://example.com/a.js''])
        = [Some (scenarioEntry None), Some (plainEntry ''https://example.com/a.js'')]
   \<and> (\<exists>rs. parseHarFile
              (parseAs (archiveOf [scenarioEntry None, plainEntry ''https://example.com/a.js'']))
              epoch (File ''har'') = Some rs
           \<and> length rs = 2
           \<and> map NetworkRequest.url rs = [''https://example.com/'', ''https://example.com/a.js''])"
proof -
  let ?h = "archiveOf [scenarioEntry None, plainEntry ''https://example.com/a.js'']"
  let ?p = "parseAs (archiveOf [])"
  have e1: "?p ''{'' = Inl SyntaxError" by (simp add: parseAs_def)
  have e2: "?p ''{}'' = Inr (Some (archiveOf []))" by (simp add: parseAs_def)
  have e3: "harEntriesOf (archiveOf []) = []" by (simp add: harEntriesOf_def archiveOf_def)
  have e4: "parseAs ?h ''har'' = Inr (Some ?h)" by (simp add: parseAs_def)
  have e5: "harEntriesOf ?h
              = [Some (scenarioEntry None), Some (plainEntry ''https://example.com/a.js'')]"
    by (simp add: harEntriesOf_def archiveOf_def)
  have e6: "?p ''null'' = Inr None" by (simp add: parseAs_def)
  have e7: "parseAs nullEntryArchive ''har'' = Inr (Some nullEntryArchive)"
    by (simp add: parseAs_def)
  have e8: "None \<in> set (harEntriesOf nullEntryArchive)"
    by (simp add: harEntriesOf_def nullEntryArchive_def)
  have u: "HarRequest.url (request (scenarioEntry None)) = ''https://example.com/''"
    "HarRequest.url (request (plainEntry ''https://example.com/a.js''))
       = ''https://example.com/a.js''"
    by (simp_all add: scenarioEntry_def plainEntry_def)
  have a: "parseHarFile ?p epoch Missing = None"
    using parseHarFile_null_or_records [of Missing ?p epoch] by simp
  have a': "parseHarFile ?p epoch Unreadable = None"
    using parseHarFile_null_or_records [of Unreadable ?p epoch] by simp
  have b: "parseHarFile ?p epoch (File ''{'') = None"
    using parseHarFile_null_or_records [of "File ''{''" ?p epoch "''{''" SyntaxError] e1
    by simp
  have b': "parseHarFile ?p epoch (File ''null'') = None"
    using parseHarFile_null_or_records [of "File ''null''" ?p epoch "''null''"] e6
    by simp
  have c: "parseHarFile ?p epoch (File ''{}'') = None"
    using parseHarFile_null_or_records [of "File ''{}''" ?p epoch "''{}''" _ "archiveOf []"]
      e2 e3
    by simp
  have c': "parseHarFile (parseAs nullEntryArchive) epoch (File ''har'') = None"
    using parseHarFile_null_or_records
      [of "File ''har''" "parseAs nullEntryArchive" epoch "''har''" _ nullEntryArchive] e7 e8
    by simp
  have d: "\<exists>rs. parseHarFile (parseAs ?h) epoch (File ''har'') = Some rs
           \<and> length rs = 2
           \<and> map NetworkRequest.url rs = [''https://example.com/'', ''https://example.com/a.js'']"
    using parseHarFile_null_or_records
      [of "File ''har''" "parseAs ?h" epoch "''har''" _ ?h] e4 e5 u
    by (simp add: numeral_2_eq_2)
  from a a' b b' c c' d e1 e2 e3 e5 e6 e8 show ?thesis by simp
qed

section \<open>The report builder (generateHtml)\<close>

text \<open>
  C4. The chain of size tests is \<open>> 1024\<close>, else \<open>> 1048576\<close>, else \<open>> 1073741824\<close>:
  a size above the second or third threshold is above the first, so the megabyte and
  gigabyte branches are never taken. 2048 bytes give \<open>2 KB\<close> and 500 bytes give
  \<open>500 B\<close>, as claimed, but 1572864 bytes (1.5 MB) give 1536 with the suffix
  \<open>KB\<close>, not a megabyte figure.
\<close>

theorem sizeStr_never_megabytes:
  "generateHtml_sizeStr toLocaleString 2048 = toLocaleString 2 @ '' KB''
   \<and> generateHtml_sizeStr toLocaleString 500 = toLocaleString 500 @ '' B''
   \<and> generateHtml_sizeStr toLocaleString 1572864 = toLocaleString 1536 @ '' KB''"
  by (simp add: generateHtml_sizeStr_def formatNumber_def)

lemma sizeStr_above_1024:
  "1024 < s \<Longrightarrow>
     generateHtml_sizeStr toLocaleString s = toLocaleString \<lfloor>s / 1024\<rfloor> @ '' KB''"
  by (simp add: generateHtml_sizeStr_def formatNumber_def)

lemma foldl_max_edges:
  "foldl (\<lambda>v s. max (max v (f s)) (g s)) a srcs
     = Max (insert a (\<Union>s \<in> set srcs. {f s, g s}))"
proof (induction srcs arbitrary: a)
  case Nil
  then show ?case by simp
next
  case (Cons s srcs)
  have fin: "finite (\<Union>s \<in> set srcs. {f s, g s})" by simp
  have "Max (insert a (\<Union>s \<in> set (s # srcs). {f s, g s}))
        = Max (insert a (insert (f s) (insert (g s) (\<Union>s \<in> set srcs. {f s, g s}))))"
    by simp
  also have "\<dots> = Max (insert (max (max a (f s)) (g s)) (\<Union>s \<in> set srcs. {f s, g s}))"
    using fin by (cases "(\<Union>s \<in> set srcs. {f s, g s}) = {}") (simp_all add: max.assoc)
  finally show ?case using Cons.IH [of "max (max a (f s)) (g s)"] by simp
qed

lemma viewportWidth_Max: "viewportWidth srcs = Max (insert 1920 (rightEdges srcs))"
  unfolding viewportWidth_def rightEdges_def by (rule foldl_max_edges)

lemma viewportHeight_Max: "viewportHeight srcs = Max (insert 1536 (bottomEdges srcs))"
  unfolding viewportHeight_def bottomEdges_def by (rule foldl_max_edges)

lemma viewportWidth_ge_default: "1920 \<le> viewportWidth srcs"
  unfolding viewportWidth_Max rightEdges_def by (rule Max_ge) simp_all

lemma viewportWidth_ge_right:
  "s \<in> set srcs \<Longrightarrow> or0 (right (currentRect s)) \<le> viewportWidth srcs"
  unfolding viewportWidth_Max rightEdges_def by (rule Max_ge) auto

lemma layoutVisual_sources:
  assumes "lv \<in> set (layoutVisual shift)"
  shows "sourceVisualData lv =
     map (sourceVisual (viewportWidth (shiftSources shift))
                       (viewportHeight (shiftSources shift)))
         (filter (\<lambda>source. \<not> (or0 (width (currentRect source)) = 0
                                \<or> or0 (height (currentRect source)) = 0))
                 (shiftSources shift))"
  using assms by (auto simp: layoutVisual_def Let_def split: if_splits)

lemma left_width_share:
  assumes "s \<in> set srcs"
    and "or0 (left (currentRect s)) + or0 (width (currentRect s)) = or0 (right (currentRect s))"
  shows "currLeftPct (sourceVisual (viewportWidth srcs) vh s)
         + currWidthPct (sourceVisual (viewportWidth srcs) vh s)
         = or0 (right (currentRect s)) / viewportWidth srcs * 100"
    and "currLeftPct (sourceVisual (viewportWidth srcs) vh s)
         + currWidthPct (sourceVisual (viewportWidth srcs) vh s) \<le> 100"
proof -
  let ?vw = "viewportWidth srcs"
  have pos: "0 < ?vw" using viewportWidth_ge_default [of srcs] by linarith
  show eq: "currLeftPct (sourceVisual ?vw vh s) + currWidthPct (sourceVisual ?vw vh s)
        = or0 (right (currentRect s)) / ?vw * 100"
    using pos assms(2) [symmetric] by (simp add: sourceVisual_def Let_def add_divide_distrib)
  show "currLeftPct (sourceVisual ?vw vh s) + currWidthPct (sourceVisual ?vw vh s) \<le> 100"
    unfolding eq using pos viewportWidth_ge_right [OF assms(1)] by (simp add: divide_le_eq)
qed

text \<open>
  C5, as the claim states it, fails on a run of two shifts. The first moves a rectangle
  to the right edge 3840; the second moves a rectangle of width 1920 at the left border.
  The viewport of the second shift is still 1920 wide, so its rectangle spans 100
  percent of it, where a viewport shared by the run (3840) would give 50.
\<close>

theorem viewport_not_shared_between_shifts:
  "map (map currWidthPct \<circ> sourceVisualData)
     (generateHtml_layoutVisualData
        (metricsOf tlsNavigation []
           [shiftOf (rect 0 0 1920 100) (rect 1920 0 1920 100),
            shiftOf (rect 0 0 1920 100) (rect 0 50 1920 100)]))
   = [[50], [100]]
   \<and> viewportWidth (shiftSources (shiftOf (rect 0 0 1920 100) (rect 1920 0 1920 100))) = 3840
   \<and> viewportWidth (shiftSources (shiftOf (rect 0 0 1920 100) (rect 0 50 1920 100))) = 1920"
  by (simp add: generateHtml_layoutVisualData_def metricsOf_def layoutVisual_def
      shiftSources_def viewportWidth_def viewportHeight_def sourceVisual_def Let_def
      shiftOf_def rect_def or0_def)

text \<open>
  C5, amended. For every layout-shift event, the viewport used to rescale the source
  rectangles of that event is the maximum of the default size (1920 wide, 1536 high) and
  the right and bottom edges of the rectangles of that event alone, and every source
  kept for the event is rescaled with it. Hence a rectangle whose left and width add up
  to its right edge spans at most 100 percent, and exactly 100 percent when its right
  edge is the width of the viewport (as with right = 1920 on the default viewport); a
  rectangle beyond the default expands the viewport for all sources of its own event.
\<close>

theorem viewport_per_shift:
  "viewportWidth (shiftSources shift) = Max (insert 1920 (rightEdges (shiftSources shift)))
   \<and> viewportHeight (shiftSources shift) = Max (insert 1536 (bottomEdges (shiftSources shift)))
   \<and> (\<forall>lv \<in> set (layoutVisual shift).
        sourceVisualData lv =
          map (sourceVisual (viewportWidth (shiftSources shift))
                            (viewportHeight (shiftSources shift)))
              (filter (\<lambda>source. \<not> (or0 (width (currentRect source)) = 0
                                     \<or> or0 (height (currentRect source)) = 0))
                      (shiftSources shift)))
   \<and> (\<forall>s \<in> set (shiftSources shift).
        or0 (left (currentRect s)) + or0 (width (currentRect s)) = or0 (right (currentRect s))
        \<longrightarrow>
          currLeftPct (sourceVisual (viewportWidth (shiftSources shift)) vh s)
          + currWidthPct (sourceVisual (viewportWidth (shiftSources shift)) vh s) \<le> 100
          \<and> (or0 (right (currentRect s)) = viewportWidth (shiftSources shift) \<longrightarrow>
                currLeftPct (sourceVisual (viewportWidth (shiftSources shift)) vh s)
                + currWidthPct (sourceVisual (viewportWidth (shiftSources shift)) vh s)
                = 100))"
proof -
  let ?vw = "viewportWidth (shiftSources shift)"
  have pos: "0 < ?vw"
    using viewportWidth_ge_default [of "shiftSources shift"] by linarith
  have share: "currLeftPct (sourceVisual ?vw vh s) + currWidthPct (sourceVisual ?vw vh s) \<le> 100
      \<and> (or0 (right (currentRect s)) = ?vw \<longrightarrow>
            currLeftPct (sourceVisual ?vw vh s) + currWidthPct (sourceVisual ?vw vh s) = 100)"
    if "s \<in> set (shiftSources shift)"
      and "or0 (left (currentRect s)) + or0 (width (currentRect s))
             = or0 (right (currentRect s))"
    for s
  proof
    show "currLeftPct (sourceVisual ?vw vh s) + currWidthPct (sourceVisual ?vw vh s) \<le> 100"
      using that by (rule left_width_share(2))
    show "or0 (right (currentRect s)) = ?vw \<longrightarrow>
            currLeftPct (sourceVisual ?vw vh s) + currWidthPct (sourceVisual ?vw vh s) = 100"
      unfolding left_width_share(1) [OF that] using pos by simp
  qed
  show ?thesis
    using viewportWidth_Max viewportHeight_Max layoutVisual_sources share by blast
qed

theorem viewport_per_shift_witness:
  "\<lparr>previousRect = rect 0 0 1920 100, currentRect = rect 0 50 1920 100\<rparr>
     \<in> set (shiftSources (shiftOf (rect 0 0 1920 100) (rect 0 50 1920 100)))
   \<and> or0 (left (rect 0 50 1920 100)) + or0 (width (rect 0 50 1920 100))
       = or0 (right (rect 0 50 1920 100))
   \<and> or0 (right (rect 0 50 1920 100)) = 1920
   \<and> viewportWidth (shiftSources (shiftOf (rect 0 0 1920 100) (rect 0 50 1920 100))) = 1920
   \<and> currLeftPct (sourceVisual 1920 1536
         \<lparr>previousRect = rect 0 0 1920 100, currentRect = rect 0 50 1920 100\<rparr>)
       + currWidthPct (sourceVisual 1920 1536
         \<lparr>previousRect = rect 0 0 1920 100, currentRect = rect 0 50 1920 100\<rparr>) = 100"
proof -
  let ?s = "\<lparr>previousRect = rect 0 0 1920 100, currentRect = rect 0 50 1920 100\<rparr>"
  let ?shift = "shiftOf (rect 0 0 1920 100) (rect 0 50 1920 100)"
  have src: "shiftSources ?shift = [?s]" by (simp add: shiftSources_def shiftOf_def)
  have m: "?s \<in> set (shiftSources ?shift)" unfolding src by simp
  have r: "or0 (right (rect 0 50 1920 100)) = 1920"
    "or0 (left (rect 0 50 1920 100)) + or0 (width (rect 0 50 1920 100)) = 1920"
    by (simp_all add: rect_def or0_def)
  have w: "viewportWidth (shiftSources ?shift) = 1920"
    unfolding src by (simp add: viewportWidth_def rect_def or0_def)
  from viewport_per_shift [of ?shift 1536] m
  have "or0 (left (currentRect ?s)) + or0 (width (currentRect ?s)) = or0 (right (currentRect ?s))
        \<longrightarrow> (or0 (right (currentRect ?s)) = viewportWidth (shiftSources ?shift) \<longrightarrow>
               currLeftPct (sourceVisual (viewportWidth (shiftSources ?shift)) 1536 ?s)
               + currWidthPct (sourceVisual (viewportWidth (shiftSources ?shift)) 1536 ?s)
               = 100)"
    by blast
  with m r w show ?thesis by simp
qed

text \<open>
  C8. The report takes \<open>ttfb\<close> from \<open>timing.response_time\<close>, which is response end
  minus response start: 10 for the navigation record below, whose response starts 150
  after the navigation start. \<open>fillOutHar\<close> computes the TTFB of the same record as
  response start minus navigation start, 150.
\<close>

theorem report_ttfb_is_response_time:
  "generateHtml_ttfb (metricsOf tlsNavigation [] []) = 10
   \<and> p_TTFB (fst (fillOutHar [] (Some (metricsOf tlsNavigation [] [])) (noPageTimings, [])))
       = Some 150"
  by (simp add: generateHtml_ttfb_def generateHtml_timing_def calculateTimingPhases_def
      fillOutHar_def fillOutHar_TTFB_def fillOutHar_LCP_def metricsOf_def tlsNavigation_def
      noPageTimings_def or0_def Let_def)

lemma generateHtml_ttfb_eq:
  "generateHtml_ttfb (metricsOf n lcps shifts)
     = or0 (NavigationTiming.responseEnd n) - or0 (NavigationTiming.responseStart n)"
  by (simp add: generateHtml_ttfb_def generateHtml_timing_def calculateTimingPhases_def
      metricsOf_def Let_def)

section \<open>The LCP resource and the LCP time\<close>

lemma fillOutHar_LCP_last:
  assumes "largestContentfulPaint m = Some evs" "evs \<noteq> []"
  shows "fillOutHar_LCP (Some m) pt
     = (pt\<lparr>p_LCP := Some (LCPEvent.startTime (evs ! (length evs - 1)))\<rparr>,
        if LCPEvent.url (evs ! (length evs - 1)) \<noteq> []
        then Some (LCPEvent.url (evs ! (length evs - 1))) else None)"
  using assms by (simp add: fillOutHar_LCP_def Let_def)

lemma generateHtml_lcpTime_first:
  assumes "largestContentfulPaint m = Some evs" "evs \<noteq> []"
  shows "generateHtml_lcpTime m = LCPEvent.startTime (evs ! 0)"
  using assms by (cases evs) (simp_all add: generateHtml_lcpTime_def)

lemma updatedObject_is_lcp:
  "p_is_lcp (updatedObject e r lcpURL)
     = (if Some (RequestData.url r) = lcpURL then Some True else p_is_lcp e)"
  by (simp add: updatedObject_def Let_def)

lemma findIndex_Some_iff:
  "findIndex P xs = Some i \<longleftrightarrow> i < length xs \<and> P (xs ! i) \<and> (\<forall>j<i. \<not> P (xs ! j))"
proof (induction xs arbitrary: i)
  case Nil
  then show ?case by simp
next
  case (Cons x xs)
  show ?case
  proof (cases "P x")
    case True
    then show ?thesis by (cases i) auto
  next
    case False
    show ?thesis
    proof (cases i)
      case 0
      with False show ?thesis by (simp split: option.splits)
    next
      case (Suc k)
      have "(\<forall>j<Suc k. \<not> P ((x # xs) ! j)) \<longleftrightarrow> (\<forall>j<k. \<not> P (xs ! j))"
        using False by (auto simp: less_Suc_eq_0_disj)
      with False Suc Cons.IH [of k] show ?thesis by (auto split: option.splits)
    qed
  qed
qed

text \<open>
  The flag of every entry after the merge: an entry carries \<open>_is_lcp = true\<close> exactly
  when it is the first entry with its URL, that URL is \<open>lcpURL\<close> and a sample without
  the \<open>rawTimings\<close> mark carries it; any other entry keeps the flag it had.
\<close>

lemma mergeStep_is_lcp:
  assumes "i < length hs"
  shows "p_is_lcp (mergeStep l hs r ! i)
     = (if HarRequest.url (request (hs ! i)) = RequestData.url r
           \<and> \<not> truthyFlag (rawTimings r)
           \<and> (\<forall>j<i. HarRequest.url (request (hs ! j)) \<noteq> RequestData.url r)
           \<and> Some (RequestData.url r) = l
        then Some True else p_is_lcp (hs ! i))"
proof -
  let ?P = "\<lambda>object. HarRequest.url (request object) = RequestData.url r
                      \<and> \<not> truthyFlag (rawTimings r)"
  have iff: "findIndex ?P hs = Some i \<longleftrightarrow>
        HarRequest.url (request (hs ! i)) = RequestData.url r
        \<and> \<not> truthyFlag (rawTimings r)
        \<and> (\<forall>j<i. HarRequest.url (request (hs ! j)) \<noteq> RequestData.url r)"
    unfolding findIndex_Some_iff [of ?P hs i] using assms by auto
  show ?thesis
  proof (cases "findIndex ?P hs = Some i")
    case True
    then have "mergeStep l hs r ! i = updatedObject (hs ! i) r l"
      using assms by (simp add: mergeStep_def)
    with True iff show ?thesis by (simp add: updatedObject_is_lcp)
  next
    case False
    then have "mergeStep l hs r ! i = hs ! i"
      by (cases "findIndex ?P hs") (simp_all add: mergeStep_def)
    with False iff show ?thesis by auto
  qed
qed

lemma mergeEntries_is_lcp:
  assumes "i < length hs"
  shows "p_is_lcp (mergeEntries rs hs l ! i)
     = (if (\<exists>r \<in> set rs. RequestData.url r = HarRequest.url (request (hs ! i))
                          \<and> \<not> truthyFlag (rawTimings r))
           \<and> (\<forall>j<i. HarRequest.url (request (hs ! j)) \<noteq> HarRequest.url (request (hs ! i)))
           \<and> Some (HarRequest.url (request (hs ! i))) = l
        then Some True else p_is_lcp (hs ! i))"
  using assms
proof (induction rs arbitrary: hs)
  case Nil
  then show ?case by (simp add: mergeEntries_def)
next
  case (Cons r rs)
  let ?hs = "mergeStep l hs r"
  have len: "i < length ?hs" using Cons.prems by (simp add: mergeStep_length)
  have same: "request (?hs ! k) = request (hs ! k)" if "k < length hs" for k
    using that mergeStep_request [of l hs r] by (metis length_map nth_map)
  have samej: "\<forall>j<i. request (?hs ! j) = request (hs ! j)"
    using same Cons.prems by simp
  have step: "mergeEntries (r # rs) hs l = mergeEntries rs ?hs l"
    by (simp add: mergeEntries_def)
  show ?case
    unfolding step Cons.IH [OF len] mergeStep_is_lcp [OF Cons.prems]
    using same [OF Cons.prems] samej by auto
qed


lemma mergeEntries_length: "length (mergeEntries rs hs l) = length hs"
  unfolding mergeEntries_def by (induction rs arbitrary: hs) (simp_all add: mergeStep_length)

lemma fillOutHar_eq:
  "fillOutHar requests metrics (pt, hs)
     = (fst (fillOutHar_LCP metrics (fillOutHar_TTFB metrics pt)),
        mergeEntries requests hs (snd (fillOutHar_LCP metrics (fillOutHar_TTFB metrics pt))))"
  by (simp add: fillOutHar_def split: prod.splits)

text \<open>
  C10. With at least two LCP events captured, the archive that \<open>fillOutHar\<close> writes
  flags an entry as \<open>_is_lcp\<close> exactly when the URL of the entry is the URL of the
  event at the last index (and the entry is the first with that URL and a live sample
  matches it); the \<open>_LCP\<close> time of the archive is the start time of that last event.
  The LCP time of the report is the start time of the event at index 0. The two indices
  differ, so the flagged resource and the reported time come from different events.
\<close>

theorem lcp_url_last_time_first:
  assumes "largestContentfulPaint m = Some evs" and "2 \<le> length evs" and "i < length hs"
  shows "p_is_lcp (snd (fillOutHar requests (Some m) (pt, hs)) ! i)
           = (if HarRequest.url (request (hs ! i)) = LCPEvent.url (evs ! (length evs - 1))
                 \<and> LCPEvent.url (evs ! (length evs - 1)) \<noteq> []
                 \<and> (\<forall>j<i. HarRequest.url (request (hs ! j))
                             \<noteq> HarRequest.url (request (hs ! i)))
                 \<and> (\<exists>r \<in> set requests. RequestData.url r = HarRequest.url (request (hs ! i))
                                          \<and> \<not> truthyFlag (rawTimings r))
              then Some True else p_is_lcp (hs ! i))
       \<and> length (snd (fillOutHar requests (Some m) (pt, hs))) = length hs
       \<and> p_LCP (fst (fillOutHar requests (Some m) (pt, hs)))
           = Some (LCPEvent.startTime (evs ! (length evs - 1)))
       \<and> generateHtml_lcpTime m = LCPEvent.startTime (evs ! 0)
       \<and> length evs - 1 \<noteq> 0"
proof -
  from assms(2) have ne: "evs \<noteq> []" by auto
  let ?pt = "fillOutHar_TTFB (Some m) pt"
  let ?last = "evs ! (length evs - 1)"
  let ?l = "if LCPEvent.url ?last \<noteq> [] then Some (LCPEvent.url ?last) else None"
  have lcp: "fillOutHar_LCP (Some m) ?pt = (?pt\<lparr>p_LCP := Some (LCPEvent.startTime ?last)\<rparr>, ?l)"
    using assms(1) ne by (rule fillOutHar_LCP_last)
  have out: "fillOutHar requests (Some m) (pt, hs)
               = (?pt\<lparr>p_LCP := Some (LCPEvent.startTime ?last)\<rparr>, mergeEntries requests hs ?l)"
    unfolding fillOutHar_eq lcp by simp
  have flag: "p_is_lcp (mergeEntries requests hs ?l ! i)
           = (if HarRequest.url (request (hs ! i)) = LCPEvent.url ?last
                 \<and> LCPEvent.url ?last \<noteq> []
                 \<and> (\<forall>j<i. HarRequest.url (request (hs ! j))
                             \<noteq> HarRequest.url (request (hs ! i)))
                 \<and> (\<exists>r \<in> set requests. RequestData.url r = HarRequest.url (request (hs ! i))
                                          \<and> \<not> truthyFlag (rawTimings r))
              then Some True else p_is_lcp (hs ! i))"
    unfolding mergeEntries_is_lcp [OF assms(3)] by auto
  show ?thesis
    unfolding out using flag assms(2) generateHtml_lcpTime_first [OF assms(1) ne]
    by (simp add: mergeEntries_length)
qed

theorem lcp_url_last_time_first_witness:
  "largestContentfulPaint (metricsOf tlsNavigation lcpCandidates []) = Some lcpCandidates
   \<and> 2 \<le> length lcpCandidates
   \<and> 1 < length [plainEntry ''https://example.com/logo.png'',
                  plainEntry ''https://example.com/hero.jpg'']
   \<and> p_is_lcp (snd (fillOutHar
         [sample ''https://example.com/logo.png'' 100 0 4,
          sample ''https://example.com/hero.jpg'' 500 0 504]
         (Some (metricsOf tlsNavigation lcpCandidates []))
         (noPageTimings, [plainEntry ''https://example.com/logo.png'',
                          plainEntry ''https://example.com/hero.jpg''])) ! 1) = Some True
   \<and> map p_is_lcp (snd (fillOutHar
         [sample ''https://example.com/logo.png'' 100 0 4,
          sample ''https://example.com/hero.jpg'' 500 0 504]
         (Some (metricsOf tlsNavigation lcpCandidates []))
         (noPageTimings, [plainEntry ''https://example.com/logo.png'',
                          plainEntry ''https://example.com/hero.jpg''])))
       = [None, Some True]
   \<and> p_LCP (fst (fillOutHar
         [sample ''https://example.com/logo.png'' 100 0 4,
          sample ''https://example.com/hero.jpg'' 500 0 504]
         (Some (metricsOf tlsNavigation lcpCandidates []))
         (noPageTimings, [plainEntry ''https://example.com/logo.png'',
                          plainEntry ''https://example.com/hero.jpg'']))) = Some 2500
   \<and> generateHtml_lcpTime (metricsOf tlsNavigation lcpCandidates []) = 1000"
proof -
  let ?hs = "[plainEntry ''https://example.com/logo.png'',
              plainEntry ''https://example.com/hero.jpg'']"
  let ?rs = "[sample ''https://example.com/logo.png'' 100 0 4,
              sample ''https://example.com/hero.jpg'' 500 0 504]"
  have a: "largestContentfulPaint (metricsOf tlsNavigation lcpCandidates []) = Some lcpCandidates"
    by (simp add: metricsOf_def)
  have b: "2 \<le> length lcpCandidates" by (simp add: lcpCandidates_def)
  have i: "1 < length ?hs" by simp
  have c: "lcpCandidates ! (length lcpCandidates - 1)
             = \<lparr>LCPEvent.startTime = 2500, url = ''https://example.com/hero.jpg''\<rparr>"
    "lcpCandidates ! 0 = \<lparr>LCPEvent.startTime = 1000, url = ''https://example.com/logo.png''\<rparr>"
    by (simp_all add: lcpCandidates_def)
  have u: "HarRequest.url (request (plainEntry v)) = v" for v
    by (simp add: plainEntry_def)
  have r: "RequestData.url (sample v x y z) = v" "rawTimings (sample v x y z) = None"
    for v x y z
    by (simp_all add: sample_def)
  have flags: "map p_is_lcp (snd (fillOutHar ?rs
                 (Some (metricsOf tlsNavigation lcpCandidates [])) (noPageTimings, ?hs)))
               = [None, Some True]"
    by (simp add: fillOutHar_def fillOutHar_LCP_def fillOutHar_TTFB_def metricsOf_def
        lcpCandidates_def mergeEntries_def mergeStep_def updatedObject_def Let_def
        truthyFlag_def plainEntry_def sample_def tlsNavigation_def noPageTimings_def)
  from lcp_url_last_time_first [OF a b i, of ?rs noPageTimings] a b flags show ?thesis
    unfolding c by (simp add: u r truthyFlag_def)
qed

end
